theory Spec2Isabelle
  imports Main
begin

section \<open>Python strings\<close>

text \<open>
  A Python \<open>str\<close> is a sequence of Unicode code points, so a string is modelled as a
  list of code points (natural numbers) and \<open>len\<close> is \<open>length\<close>.  Literals of the
  source are written through \<open>str\<close>, which maps an ASCII literal to its code points.
\<close>

type_synonym pystr = "nat list"

definition str :: "string \<Rightarrow> pystr" where
  "str s = map of_char s"

text \<open>
  \<open>str.isspace\<close> for one code point, as CPython decides it: the code points of
  bidirectional class WS, B or S and those of general category Zs.
\<close>

definition isspace :: "nat \<Rightarrow> bool" where
  "isspace c \<longleftrightarrow>
     (9 \<le> c \<and> c \<le> 13) \<or> (28 \<le> c \<and> c \<le> 32) \<or> c = 133 \<or> c = 160 \<or> c = 5760 \<or>
     (8192 \<le> c \<and> c \<le> 8202) \<or> c = 8232 \<or> c = 8233 \<or> c = 8239 \<or> c = 8287 \<or>
     c = 12288"

text \<open>The line feed, \<open>'\n'\<close>.\<close>

definition nl :: nat where
  "nl = 10"

text \<open>\<open>s.strip()\<close>: leading and trailing whitespace removed.\<close>

definition strip :: "pystr \<Rightarrow> pystr" where
  "strip s = rev (dropWhile isspace (rev (dropWhile isspace s)))"

text \<open>
  \<open>s.split('\n')\<close>: the pieces between line feeds; the result is never empty, the
  empty string gives one empty piece.
\<close>

fun split_nl :: "pystr \<Rightarrow> pystr list" where
  "split_nl [] = [[]]"
| "split_nl (c # cs) =
     (if c = nl then [] # split_nl cs
      else (c # hd (split_nl cs)) # tl (split_nl cs))"

text \<open>\<open>s.startswith(p)\<close>.\<close>

definition startswith :: "pystr \<Rightarrow> pystr \<Rightarrow> bool" where
  "startswith s p \<longleftrightarrow> take (length p) s = p"

section \<open>The script parser\<close>

text \<open>
  A scene is the dictionary \<open>{"description": ..., "characters": [...], "actions": [...]}\<close>
  of \<open>_parse_script\<close>.
\<close>

record scene =
  description :: pystr
  characters :: "pystr list"
  actions :: "pystr list"

text \<open>
  The state of the loop of \<open>_parse_script\<close>: the list \<open>scenes\<close> and the dictionary
  \<open>current_scene\<close>.  A dictionary is appended to \<open>scenes\<close> only when \<open>current_scene\<close>
  is rebound to a fresh one (or after the loop), so no appended scene is mutated later
  and the state can be passed by value.
\<close>

record pstate =
  scenes :: "scene list"
  current_scene :: scene

definition init_state :: pstate where
  "init_state =
     \<lparr>scenes = [], current_scene = \<lparr>description = [], characters = [], actions = []\<rparr>\<rparr>"

text \<open>One iteration of the loop over the pieces of the script.\<close>

definition step :: "pstate \<Rightarrow> pystr \<Rightarrow> pstate" where
  "step st raw =
     (let line = strip raw in
      if line = [] then st
      else if startswith line (str ''SCENE:'') then
        \<lparr>scenes =
           (if description (current_scene st) \<noteq> [] then scenes st @ [current_scene st]
            else scenes st),
         current_scene =
           \<lparr>description = strip (drop 6 line), characters = [], actions = []\<rparr>\<rparr>
      else if startswith line (str ''CHARACTER:'') then
        st\<lparr>current_scene := (current_scene st)
             \<lparr>characters := characters (current_scene st) @ [strip (drop 10 line)]\<rparr>\<rparr>
      else if \<not> (startswith line (str ''#'') \<or> startswith line (str ''//'')) then
        st\<lparr>current_scene := (current_scene st)
             \<lparr>actions := actions (current_scene st) @ [line]\<rparr>\<rparr>
      else st)"

text \<open>The statements after the loop: the open scene is appended if it has a description.\<close>

definition finish :: "pstate \<Rightarrow> scene list" where
  "finish st =
     (if description (current_scene st) \<noteq> [] then scenes st @ [current_scene st]
      else scenes st)"

definition parse_script :: "pystr \<Rightarrow> scene list" where
  "parse_script script = finish (foldl step init_state (split_nl (strip script)))"

section \<open>Clip timing in \<open>create_animation\<close>\<close>

text \<open>
  The clips of the video library are modelled by the values the source sets on them:
  a text clip by its text, start and duration, the composite clip of a scene by the
  path of its image, the duration of the image clip and its text clips in order.
\<close>

record text_clip =
  clip_text :: pystr
  start :: int
  duration :: int

record scene_clip =
  image_path :: pystr
  scene_duration :: int
  text_clips :: "text_clip list"

text \<open>\<open>max(len(scene["actions"]) * 3, 5)\<close>.\<close>

definition scene_duration_of :: "scene \<Rightarrow> int" where
  "scene_duration_of sc = max (int (length (actions sc)) * 3) 5"

text \<open>The loop over \<open>enumerate(scene["actions"])\<close> that builds \<open>text_clips\<close>.\<close>

definition text_clips_of :: "scene \<Rightarrow> text_clip list" where
  "text_clips_of sc =
     map (\<lambda>(i, action). \<lparr>clip_text = action, start = int i * 3, duration = 3\<rparr>)
       (enumerate 0 (actions sc))"

text \<open>The composite clip \<open>scene_with_text\<close> of a scene whose image is at \<open>path\<close>.\<close>

definition scene_with_text :: "pystr \<Rightarrow> scene \<Rightarrow> scene_clip" where
  "scene_with_text path sc =
     \<lparr>image_path = path, scene_duration = scene_duration_of sc,
      text_clips = text_clips_of sc\<rparr>"

section \<open>The orchestration in \<open>create_animation\<close>\<close>

text \<open>
  The exceptions of the source, by the statement that raises them; \<open>LibraryError\<close> is any
  exception that a library call raises and the source does not translate.
\<close>

datatype exn =
    ApiIssues
  | ImageGenerationFailed pystr
  | NoScenesGenerated
  | LibraryError pystr

text \<open>
  What the outside world answers during one call of \<open>generate_scene_image\<close>: the results
  of \<open>check_api_status()\<close> and \<open>check_components_status()\<close>, and how the \<open>try\<close> block
  with the request ends: the image is saved at a path, a \<open>RequestException\<close> is raised, or
  another exception is.
\<close>

datatype request_outcome =
    Saved pystr
  | RequestException pystr
  | OtherException pystr

record reply =
  api_status :: bool
  components_status :: bool
  request :: request_outcome

text \<open>
  The calls that leave the process are recorded as events: the image request with its
  prompt, the message printed by the handler of the scene loop, and the two calls of the
  renderer.
\<close>

datatype event =
    Post pystr
  | PrintError exn
  | Concatenate "scene_clip list"
  | WriteVideofile pystr int

definition generate_scene_image :: "reply \<Rightarrow> pystr \<Rightarrow> event list \<times> (exn + pystr)" where
  "generate_scene_image r scene_description =
     (if \<not> api_status r \<or> \<not> components_status r then ([], Inl ApiIssues)
      else
        ([Post (scene_description @ str '', animation style, high quality, detailed'')],
         case request r of
           Saved saved_path \<Rightarrow> Inr saved_path
         | RequestException e \<Rightarrow> Inl (ImageGenerationFailed e)
         | OtherException e \<Rightarrow> Inl (LibraryError e)))"

text \<open>
  The state of the scene loop: the list \<open>clips\<close> and the events so far.  The body of the
  loop is one \<open>try\<close> block whose handler catches every \<open>Exception\<close>, prints it and
  continues; the constructors of the clips are taken to return.
\<close>

record astate =
  clips :: "scene_clip list"
  log :: "event list"

definition scene_body :: "reply \<Rightarrow> scene \<Rightarrow> astate \<Rightarrow> astate" where
  "scene_body r sc st =
     (case generate_scene_image r (description sc) of
        (evs, Inl e) \<Rightarrow> st\<lparr>log := log st @ evs @ [PrintError e]\<rparr>
      | (evs, Inr scene_image_path) \<Rightarrow>
          st\<lparr>clips := clips st @ [scene_with_text scene_image_path sc],
             log := log st @ evs\<rparr>)"

text \<open>
  The loop \<open>for scene in scenes\<close>; \<open>k\<close> counts the calls of \<open>generate_scene_image\<close>, and
  the world answers the \<open>k\<close>-th call with \<open>w k\<close>.
\<close>

fun scene_loop :: "(nat \<Rightarrow> reply) \<Rightarrow> nat \<Rightarrow> scene list \<Rightarrow> astate \<Rightarrow> astate" where
  "scene_loop w k [] st = st"
| "scene_loop w k (sc # scs) st = scene_loop w (Suc k) scs (scene_body (w k) sc st)"

text \<open>
  The renderer: \<open>concatenate_videoclips\<close> and \<open>write_videofile\<close> return or raise.
\<close>

datatype render_outcome =
    Written
  | ConcatenateRaises pystr
  | WriteRaises pystr

record world =
  replies :: "nat \<Rightarrow> reply"
  render :: render_outcome

text \<open>
  \<open>os.path.join(self.output_dir, output_filename)\<close> with the output directory
  \<open>"generated_animations"\<close>, under POSIX: an absolute file name replaces the directory.
\<close>

definition output_path_of :: "pystr \<Rightarrow> pystr" where
  "output_path_of output_filename =
     (if startswith output_filename (str ''/'') then output_filename
      else str ''generated_animations/'' @ output_filename)"

text \<open>
  A run of \<open>create_animation\<close>: what it returns or raises, the list \<open>clips\<close> after the
  scene loop, and the events in order.  The calls of \<open>close\<close> at the end are left out.
\<close>

record run =
  outcome :: "exn + pystr"
  final_clips :: "scene_clip list"
  events :: "event list"

definition create_animation :: "world \<Rightarrow> pystr \<Rightarrow> pystr \<Rightarrow> int \<Rightarrow> run" where
  "create_animation w script output_filename fps =
     (let scenes = parse_script script;
          st = scene_loop (replies w) 0 scenes \<lparr>clips = [], log = []\<rparr>
      in if clips st = [] then
           \<lparr>outcome = Inl NoScenesGenerated, final_clips = clips st, events = log st\<rparr>
         else
           (let output_path = output_path_of output_filename in
            case render w of
              ConcatenateRaises e \<Rightarrow>
                \<lparr>outcome = Inl (LibraryError e), final_clips = clips st,
                 events = log st @ [Concatenate (clips st)]\<rparr>
            | WriteRaises e \<Rightarrow>
                \<lparr>outcome = Inl (LibraryError e), final_clips = clips st,
                 events = log st @ [Concatenate (clips st), WriteVideofile output_path fps]\<rparr>
            | Written \<Rightarrow>
                \<lparr>outcome = Inr output_path, final_clips = clips st,
                 events = log st @ [Concatenate (clips st), WriteVideofile output_path fps]\<rparr>))"

section \<open>Vocabulary of the specification\<close>

text \<open>
  The trimmed, non-blank lines of a text, in order: what the loop of the parser looks at.
\<close>

definition trimmed_lines :: "pystr list \<Rightarrow> pystr list" where
  "trimmed_lines raws = filter (\<lambda>l. l \<noteq> []) (map strip raws)"

definition script_lines :: "pystr \<Rightarrow> pystr list" where
  "script_lines script = trimmed_lines (split_nl script)"

text \<open>The kinds of a trimmed line, and the description that a \<open>SCENE:\<close> line declares.\<close>

definition scene_line :: "pystr \<Rightarrow> bool" where
  "scene_line l \<longleftrightarrow> startswith l (str ''SCENE:'')"

definition character_line :: "pystr \<Rightarrow> bool" where
  "character_line l \<longleftrightarrow> \<not> scene_line l \<and> startswith l (str ''CHARACTER:'')"

definition comment_line :: "pystr \<Rightarrow> bool" where
  "comment_line l \<longleftrightarrow> startswith l (str ''#'') \<or> startswith l (str ''//'')"

definition action_line :: "pystr \<Rightarrow> bool" where
  "action_line l \<longleftrightarrow> \<not> scene_line l \<and> \<not> character_line l \<and> \<not> comment_line l"

definition declared :: "pystr \<Rightarrow> pystr" where
  "declared l = strip (drop 6 l)"

text \<open>
  The block of the line at index \<open>i\<close>: the lines after it up to the next \<open>SCENE:\<close> line.
  The scene that the specification reads off a \<open>SCENE:\<close> line and its block.
\<close>

definition block_after :: "pystr list \<Rightarrow> nat \<Rightarrow> pystr list" where
  "block_after ls i = takeWhile (\<lambda>l. \<not> scene_line l) (drop (Suc i) ls)"

definition scene_of :: "pystr \<Rightarrow> pystr list \<Rightarrow> scene" where
  "scene_of l block =
     \<lparr>description = declared l,
      characters = map (\<lambda>c. strip (drop 10 c)) (filter character_line block),
      actions = filter action_line block\<rparr>"

definition sealed_line :: "pystr \<Rightarrow> bool" where
  "sealed_line l \<longleftrightarrow> scene_line l \<and> declared l \<noteq> []"

text \<open>The if/elif chain of the loop body on a trimmed, non-blank line.\<close>

definition classify :: "pstate \<Rightarrow> pystr \<Rightarrow> pstate" where
  "classify st line =
     (if scene_line line then
        \<lparr>scenes = finish st,
         current_scene = \<lparr>description = declared line, characters = [], actions = []\<rparr>\<rparr>
      else if character_line line then
        st\<lparr>current_scene := (current_scene st)
             \<lparr>characters := characters (current_scene st) @ [strip (drop 10 line)]\<rparr>\<rparr>
      else if action_line line then
        st\<lparr>current_scene := (current_scene st)
             \<lparr>actions := actions (current_scene st) @ [line]\<rparr>\<rparr>
      else st)"

text \<open>The scenes that the specification reads off a list of trimmed lines, last block first.\<close>

fun scenes_from :: "pystr list \<Rightarrow> scene list" where
  "scenes_from [] = []"
| "scenes_from (l # ls) =
     (if sealed_line l then
        scene_of l (takeWhile (\<lambda>l. \<not> scene_line l) ls) # scenes_from ls
      else scenes_from ls)"

text \<open>An open scene extended by the lines of a block.\<close>

definition extended :: "scene \<Rightarrow> pystr list \<Rightarrow> scene" where
  "extended sc block =
     sc\<lparr>characters := characters sc @ map (\<lambda>c. strip (drop 10 c)) (filter character_line block),
        actions := actions sc @ filter action_line block\<rparr>"

section \<open>Properties of the clip timing\<close>

lemma text_clips_of_length: "length (text_clips_of sc) = length (actions sc)"
  by (simp add: text_clips_of_def)

lemma text_clips_of_nth:
  "i < length (actions sc) \<Longrightarrow>
   text_clips_of sc ! i = \<lparr>clip_text = actions sc ! i, start = int i * 3, duration = 3\<rparr>"
  by (simp add: text_clips_of_def nth_enumerate_eq)

text \<open>
  C1: the duration of the clip of a scene is \<open>max(3 * len(actions), 5)\<close> seconds; it is
  at least 5 and monotonically non-decreasing in the number of actions.
\<close>

theorem duration_formula:
  "scene_duration (scene_with_text path sc) = max (3 * int (length (actions sc))) 5
   \<and> 5 \<le> scene_duration (scene_with_text path sc)
   \<and> (length (actions sc) \<le> length (actions sc') \<longrightarrow>
        scene_duration (scene_with_text path sc)
          \<le> scene_duration (scene_with_text path' sc'))"
  by (auto simp add: scene_with_text_def scene_duration_of_def)

theorem duration_formula_witness:
  "length (actions \<lparr>description = str ''a'', characters = [], actions = [str ''u'']\<rparr>)
     \<le> length (actions \<lparr>description = str ''b'', characters = [], actions = [str ''u'', str ''v'', str ''w'']\<rparr>)
   \<and> scene_duration (scene_with_text (str ''p'') \<lparr>description = str ''a'', characters = [], actions = [str ''u'']\<rparr>) = 5
   \<and> scene_duration (scene_with_text (str ''q'') \<lparr>description = str ''b'', characters = [], actions = [str ''u'', str ''v'', str ''w'']\<rparr>) = 9"
  using duration_formula [of "str ''p''" "\<lparr>description = str ''a'', characters = [], actions = [str ''u'']\<rparr>"
      "\<lparr>description = str ''b'', characters = [], actions = [str ''u'', str ''v'', str ''w'']\<rparr>" "str ''q''"]
  by (simp add: scene_with_text_def scene_duration_of_def)

text \<open>
  C2: the text clips of a scene are one per action, in action order: the one of the action
  at index \<open>i\<close> (0-based) has that action as text, starts at \<open>3 * i\<close> seconds and lasts 3
  seconds, and it ends no later than the clip of the scene.
\<close>

theorem overlays_per_action:
  "length (text_clips (scene_with_text path sc)) = length (actions sc)
   \<and> (\<forall>i < length (actions sc).
        text_clips (scene_with_text path sc) ! i
          = \<lparr>clip_text = actions sc ! i, start = 3 * int i, duration = 3\<rparr>
        \<and> start (text_clips (scene_with_text path sc) ! i)
            + duration (text_clips (scene_with_text path sc) ! i)
          \<le> scene_duration (scene_with_text path sc))"
  by (auto simp add: scene_with_text_def text_clips_of_length text_clips_of_nth
      scene_duration_of_def)

theorem overlays_per_action_witness:
  "(0::nat) < length (actions \<lparr>description = str ''a'', characters = [], actions = [str ''u'', str ''v'']\<rparr>)
   \<and> (1::nat) < length (actions \<lparr>description = str ''a'', characters = [], actions = [str ''u'', str ''v'']\<rparr>)
   \<and> text_clips (scene_with_text (str ''p'')
          \<lparr>description = str ''a'', characters = [], actions = [str ''u'', str ''v'']\<rparr>)
       = [\<lparr>clip_text = str ''u'', start = 0, duration = 3\<rparr>,
          \<lparr>clip_text = str ''v'', start = 3, duration = 3\<rparr>]
   \<and> scene_duration (scene_with_text (str ''p'')
          \<lparr>description = str ''a'', characters = [], actions = [str ''u'', str ''v'']\<rparr>) = 6"
  using overlays_per_action [of "str ''p''"
      "\<lparr>description = str ''a'', characters = [], actions = [str ''u'', str ''v'']\<rparr>"]
  by (simp add: scene_with_text_def scene_duration_of_def text_clips_of_def enumerate_eq_zip)

text \<open>
  C9: the characters of a scene do not influence timing: two scenes with the same actions
  (and the same image) get the same duration and the same text clips, whatever their
  characters are.
\<close>

theorem characters_do_not_affect_timing:
  "actions sc = actions sc' \<Longrightarrow>
   scene_duration (scene_with_text path sc) = scene_duration (scene_with_text path sc')
   \<and> text_clips (scene_with_text path sc) = text_clips (scene_with_text path sc')
   \<and> scene_with_text path sc = scene_with_text path sc'"
  by (simp add: scene_with_text_def scene_duration_of_def text_clips_of_def)

theorem characters_do_not_affect_timing_witness:
  "actions \<lparr>description = str ''a'', characters = [str ''w''], actions = [str ''u'']\<rparr>
     = actions \<lparr>description = str ''a'', characters = [str ''x'', str ''y''], actions = [str ''u'']\<rparr>
   \<and> characters \<lparr>description = str ''a'', characters = [str ''w''], actions = [str ''u'']\<rparr>
     \<noteq> characters \<lparr>description = str ''a'', characters = [str ''x'', str ''y''], actions = [str ''u'']\<rparr>
   \<and> scene_with_text (str ''p'') \<lparr>description = str ''a'', characters = [str ''w''], actions = [str ''u'']\<rparr>
     = scene_with_text (str ''p'') \<lparr>description = str ''a'', characters = [str ''x'', str ''y''], actions = [str ''u'']\<rparr>"
  using characters_do_not_affect_timing [of
      "\<lparr>description = str ''a'', characters = [str ''w''], actions = [str ''u'']\<rparr>"
      "\<lparr>description = str ''a'', characters = [str ''x'', str ''y''], actions = [str ''u'']\<rparr>"
      "str ''p''"]
  by simp

section \<open>Lines of a script\<close>

lemma step_classify:
  "step st raw = (if strip raw = [] then st else classify st (strip raw))"
  by (simp add: step_def classify_def Let_def scene_line_def character_line_def
      action_line_def comment_line_def finish_def declared_def)

lemma foldl_step_classify:
  "foldl step st raws = foldl classify st (trimmed_lines raws)"
  by (induction raws arbitrary: st) (simp_all add: trimmed_lines_def step_classify)

lemma split_nl_not_Nil [simp]: "split_nl s \<noteq> []"
  by (cases s) simp_all

lemma split_nl_append_nl: "split_nl (a @ nl # b) = split_nl a @ split_nl b"
  by (induction a) simp_all

lemma split_nl_snoc:
  "split_nl (s @ [c]) =
     (if c = nl then split_nl s @ [[]]
      else butlast (split_nl s) @ [last (split_nl s) @ [c]])"
proof (induction s)
  case Nil
  show ?case by simp
next
  case (Cons a s)
  obtain x xs where X: "split_nl s = x # xs"
    by (cases "split_nl s") simp_all
  show ?case
    using Cons X by (cases "xs = []") auto
qed

lemma strip_Nil [simp]: "strip [] = []"
  by (simp add: strip_def)

lemma strip_Cons_space: "isspace c \<Longrightarrow> strip (c # l) = strip l"
  by (simp add: strip_def)

lemma strip_snoc_space: "isspace c \<Longrightarrow> strip (l @ [c]) = strip l"
proof (cases "\<forall>x\<in>set l. isspace x")
  case True
  assume c: "isspace c"
  from True c have A: "dropWhile isspace (l @ [c]) = []" and B: "dropWhile isspace l = []"
    by simp_all
  show ?thesis by (simp only: strip_def A B)
next
  case False
  assume c: "isspace c"
  from False have "dropWhile isspace (l @ [c]) = dropWhile isspace l @ [c]"
    by (auto simp: dropWhile_append)
  with c show ?thesis by (simp add: strip_def)
qed

lemma trimmed_lines_append [simp]:
  "trimmed_lines (xs @ ys) = trimmed_lines xs @ trimmed_lines ys"
  by (simp add: trimmed_lines_def)

lemma trimmed_lines_last_space:
  assumes "isspace c" "ys \<noteq> []"
  shows "trimmed_lines (butlast ys @ [last ys @ [c]]) = trimmed_lines ys"
proof -
  have "trimmed_lines [last ys @ [c]] = trimmed_lines [last ys]"
    using assms(1) by (simp add: trimmed_lines_def strip_snoc_space)
  then have "trimmed_lines (butlast ys @ [last ys @ [c]]) = trimmed_lines (butlast ys @ [last ys])"
    by simp
  with assms(2) show ?thesis by simp
qed

lemma isspace_nl [simp]: "isspace nl"
  by (simp add: isspace_def nl_def)

lemma trimmed_lines_dropWhile:
  "trimmed_lines (split_nl (dropWhile isspace s)) = trimmed_lines (split_nl s)"
proof (induction s)
  case Nil
  show ?case by simp
next
  case (Cons c s)
  obtain x xs where X: "split_nl s = x # xs"
    by (cases "split_nl s") simp_all
  show ?case
    using Cons X by (auto simp: trimmed_lines_def strip_Cons_space)
qed

lemma trimmed_lines_dropWhile_rev:
  "trimmed_lines (split_nl (rev (dropWhile isspace (rev s)))) = trimmed_lines (split_nl s)"
proof (induction s rule: rev_induct)
  case Nil
  show ?case by simp
next
  case (snoc c s)
  show ?case
  proof (cases "isspace c")
    case False
    then show ?thesis by simp
  next
    case True
    have "trimmed_lines (split_nl (s @ [c])) = trimmed_lines (split_nl s)"
    proof (cases "c = nl")
      case True
      then show ?thesis by (simp add: split_nl_snoc trimmed_lines_def)
    next
      case False
      with \<open>isspace c\<close> show ?thesis
        by (simp add: split_nl_snoc trimmed_lines_last_space del: trimmed_lines_append)
    qed
    with True snoc show ?thesis by simp
  qed
qed

lemma script_lines_strip: "script_lines (strip s) = script_lines s"
  by (simp add: script_lines_def strip_def trimmed_lines_dropWhile_rev trimmed_lines_dropWhile)

section \<open>The parser computes the scenes of the specification\<close>

lemma extended_Nil [simp]: "extended sc [] = sc"
  by (simp add: extended_def)

lemma description_extended [simp]: "description (extended sc b) = description sc"
  by (simp add: extended_def)

lemma classify_scene_line:
  "scene_line l \<Longrightarrow>
   classify st l =
     \<lparr>scenes = finish st,
      current_scene = \<lparr>description = declared l, characters = [], actions = []\<rparr>\<rparr>"
  by (simp add: classify_def)

lemma classify_other_line:
  "\<not> scene_line l \<Longrightarrow> classify st l = st\<lparr>current_scene := extended (current_scene st) [l]\<rparr>"
  by (simp add: classify_def extended_def action_line_def character_line_def)

lemma extended_extended:
  "\<not> scene_line l \<Longrightarrow> extended (extended sc [l]) b = extended sc (l # b)"
  by (simp add: extended_def)

lemma extended_fresh:
  "extended \<lparr>description = d, characters = [], actions = []\<rparr> b =
     \<lparr>description = d, characters = map (\<lambda>c. strip (drop 10 c)) (filter character_line b),
      actions = filter action_line b\<rparr>"
  by (simp add: extended_def)

lemma finish_classify_scenes:
  "finish (foldl classify st ls) =
     scenes st @
     (if description (current_scene st) \<noteq> []
      then [extended (current_scene st) (takeWhile (\<lambda>l. \<not> scene_line l) ls)] else []) @
     scenes_from ls"
proof (induction ls arbitrary: st)
  case Nil
  show ?case by (simp add: finish_def)
next
  case (Cons l ls)
  show ?case
  proof (cases "scene_line l")
    case True
    have "finish (foldl classify st (l # ls)) = finish (foldl classify (classify st l) ls)"
      by simp
    also have "\<dots> = scenes (classify st l) @
        (if description (current_scene (classify st l)) \<noteq> []
         then [extended (current_scene (classify st l)) (takeWhile (\<lambda>l. \<not> scene_line l) ls)]
         else []) @ scenes_from ls"
      by (rule Cons)
    finally show ?thesis
      using True
      by (simp add: classify_scene_line finish_def extended_fresh scene_of_def sealed_line_def)
  next
    case False
    have "finish (foldl classify st (l # ls)) = finish (foldl classify (classify st l) ls)"
      by simp
    also have "\<dots> = scenes (classify st l) @
        (if description (current_scene (classify st l)) \<noteq> []
         then [extended (current_scene (classify st l)) (takeWhile (\<lambda>l. \<not> scene_line l) ls)]
         else []) @ scenes_from ls"
      by (rule Cons)
    finally show ?thesis
      using False
      by (simp add: classify_other_line extended_extended sealed_line_def)
  qed
qed

lemma parse_script_scenes_from: "parse_script script = scenes_from (script_lines script)"
proof -
  have "parse_script script = finish (foldl classify init_state (script_lines (strip script)))"
    by (simp add: parse_script_def foldl_step_classify script_lines_def)
  also have "\<dots> = scenes_from (script_lines script)"
    by (simp add: finish_classify_scenes script_lines_strip init_state_def)
  finally show ?thesis .
qed

end
